theory Spec2Isabelle
  imports Main "HOL-Library.Word" "HOL-Library.Sublist" "HOL-Library.Multiset"
begin

section \<open>Values, records and errors\<close>

text \<open>
  The package is generic over a record type \<open>T\<close> (a Go struct that gorm maps to a table).
  A struct value is modelled as the list of its attributes with their values, in
  declaration order. Go's \<open>any\<close> values that occur in the package's queries (numbers,
  timestamps, strings) are numbers or strings; a timestamp is its number of time units.
  A \<open>*T\<close> is a nullable pointer: \<open>None\<close> is \<open>nil\<close>.
\<close>

datatype val = Num int | Str string

type_synonym row = "(string \<times> val) list"

type_synonym ptr = "row option"

text \<open>
  Go errors. \<open>gorm.ErrRecordNotFound\<close> and \<open>MultipleResultsError\<close> are two values made by
  two calls of \<open>errors.New\<close>; \<open>DbFailure\<close> stands for any other error the storage
  collaborator reports, and \<open>Wrapped m e\<close> is \<open>fmt.Errorf(m + "%w", e)\<close>.
  An \<open>error\<close> result of a Go function is an \<open>error option\<close>: \<open>None\<close> is \<open>nil\<close>.
\<close>

datatype error =
    ErrRecordNotFound
  | MultipleResultsError
  | DbFailure string
  | Wrapped string error

text \<open>\<open>errors.Is(err, target)\<close>: \<open>err\<close> or an error it wraps is \<open>target\<close>.\<close>

fun errors_Is :: "error \<Rightarrow> error \<Rightarrow> bool" where
  "errors_Is (Wrapped m e) t = (Wrapped m e = t \<or> errors_Is e t)"
| "errors_Is e t = (e = t)"

datatype panic = Panic string

section \<open>Sort directions\<close>

text \<open>
  \<open>OrderBy\<close> is a Go \<open>uint\<close> (64 bits wide on a 64-bit platform); the two
  declared constants are \<open>1 << iota\<close> for \<open>iota = 0, 1\<close>.
\<close>

type_synonym OrderBy = "64 word"

definition ASC :: OrderBy where
  "ASC = push_bit (0::nat) 1"

definition DESC :: OrderBy where
  "DESC = push_bit (1::nat) 1"

text \<open>\<open>func (ob OrderBy) String() string\<close>; the \<open>panic\<close> is the \<open>Inl\<close> branch.\<close>

definition OrderBy_String :: "OrderBy \<Rightarrow> panic + string" where
  "OrderBy_String ob =
     (if ob = ASC then Inr ''ASC''
      else if ob = DESC then Inr ''DESC''
      else Inl (Panic ''unknown OrderBy''))"

section \<open>Queries and the statement handed to gorm\<close>

text \<open>
  \<open>Between\<close> and \<open>Query\<close> are the structs of the source. A Go map is modelled as an
  association list: the list is the order in which one run of \<open>range\<close> visits the
  entries, which Go leaves unspecified.
\<close>

record Between =
  From :: val
  To :: val

record Query =
  Omit :: "string list"
  Preload :: "string list"
  OrderBy :: "(string \<times> OrderBy) list"
  Equal :: "(string \<times> string) list"
  Like :: "(string \<times> string) list"
  Between :: "(string \<times> Between) list"

text \<open>
  The package never evaluates a query itself: it calls gorm's builder and hands the
  statement over. A statement is the record of the builder calls made on it:
  \<open>Omit(cols...)\<close> sets the omitted columns, \<open>Preload\<close>, \<open>Order\<close> and \<open>Where\<close> each add
  one entry. A condition is a struct example (\<open>Where(&v)\<close>), a map (the inline condition
  of \<open>Find(&res, q)\<close>) or an SQL fragment with its arguments (\<open>Where(sql, args...)\<close>).
  \<open>db0\<close> is \<open>g.db.Debug().WithContext(ctx)\<close>, a statement with no clause yet.
\<close>

datatype cond =
    StructCond row
  | MapCond "(string \<times> val) list"
  | ExprCond string "val list"

record stmt =
  Omits :: "string list"
  Preloads :: "string list"
  Orders :: "string list"
  Conds :: "cond list"

definition db0 :: stmt where
  "db0 = \<lparr>Omits = [], Preloads = [], Orders = [], Conds = []\<rparr>"

definition db_Omit :: "string list \<Rightarrow> stmt \<Rightarrow> stmt" where
  "db_Omit cols st = st\<lparr>Omits := cols\<rparr>"

definition db_Preload :: "string \<Rightarrow> stmt \<Rightarrow> stmt" where
  "db_Preload s st = st\<lparr>Preloads := Preloads st @ [s]\<rparr>"

definition db_Order :: "string \<Rightarrow> stmt \<Rightarrow> stmt" where
  "db_Order s st = st\<lparr>Orders := Orders st @ [s]\<rparr>"

definition db_Where :: "cond \<Rightarrow> stmt \<Rightarrow> stmt" where
  "db_Where c st = st\<lparr>Conds := Conds st @ [c]\<rparr>"

text \<open>
  The terminal calls are the storage collaborator's and are parameters of the model:
  \<open>Find\<close> maps a statement to the slice it fills and its \<open>Error\<close>; a write
  (\<open>Create\<close>, \<open>FirstOrCreate\<close>, \<open>Updates\<close>) maps a statement and the record passed by
  pointer to the record as the call leaves it and its \<open>Error\<close>.
\<close>

type_synonym finder = "stmt \<Rightarrow> ptr list \<times> error option"

type_synonym writer = "stmt \<Rightarrow> row \<Rightarrow> row \<times> error option"

section \<open>The generic CRUD value\<close>

text \<open>
  \<open>GenericCRUD\<close> keeps the constructor's omit list (its \<open>logger\<close> is always nil and its
  \<open>db\<close> is the collaborator above). The source has two constructors: the one of the file
  that also defines \<open>SmartQuery\<close>,
  \<^verbatim>\<open>omit: omit\<close>,
  and the one of the variant in crud/model.go,
  \<^verbatim>\<open>OmitByDefault = []string{"CreatedAt", "UpdatedAt"}\<close> and
  \<^verbatim>\<open>omit: append(OmitByDefault, omit...)\<close>.
  The write and read methods are the same text in both.
\<close>

record GenericCRUD =
  omit :: "string list"

definition New :: "string list \<Rightarrow> GenericCRUD" where
  "New om = \<lparr>omit = om\<rparr>"

definition OmitByDefault :: "string list" where
  "OmitByDefault = [''CreatedAt'', ''UpdatedAt'']"

definition New_OmitByDefault :: "string list \<Rightarrow> GenericCRUD" where
  "New_OmitByDefault om = \<lparr>omit = OmitByDefault @ om\<rparr>"

subsection \<open>Writes\<close>

text \<open>
  \<^verbatim>\<open>g.db.Debug().WithContext(ctx).Omit(append(g.omit, omit...)...).Create(&v).Error\<close>;
  \<open>append(g.omit, omit...)\<close> is \<open>g.omit\<close> followed by the call's \<open>omit\<close> arguments.
  \<open>Create\<close> and \<open>GetOrCreate\<close> return \<open>&v\<close> and the error, \<open>Update\<close> the error.
\<close>

definition Create_stmt :: "GenericCRUD \<Rightarrow> string list \<Rightarrow> stmt" where
  "Create_stmt g om = db_Omit (omit g @ om) db0"

definition Create :: "writer \<Rightarrow> GenericCRUD \<Rightarrow> row \<Rightarrow> string list \<Rightarrow> ptr \<times> error option" where
  "Create db_Create g v om =
     (case db_Create (Create_stmt g om) v of (v', err) \<Rightarrow> (Some v', err))"

definition GetOrCreate_stmt :: "GenericCRUD \<Rightarrow> row \<Rightarrow> string list \<Rightarrow> stmt" where
  "GetOrCreate_stmt g v om = db_Where (StructCond v) (db_Omit (omit g @ om) db0)"

definition GetOrCreate :: "writer \<Rightarrow> GenericCRUD \<Rightarrow> row \<Rightarrow> string list \<Rightarrow> ptr \<times> error option" where
  "GetOrCreate db_FirstOrCreate g v om =
     (case db_FirstOrCreate (GetOrCreate_stmt g v om) v of (v', err) \<Rightarrow> (Some v', err))"

definition Update_stmt :: "GenericCRUD \<Rightarrow> string list \<Rightarrow> stmt" where
  "Update_stmt g om = db_Omit (omit g @ om) db0"

definition Update :: "writer \<Rightarrow> GenericCRUD \<Rightarrow> row \<Rightarrow> string list \<Rightarrow> error option" where
  "Update db_Updates g v om = snd (db_Updates (Update_stmt g om) v)"

subsection \<open>Reads by example and by map\<close>

text \<open>
  \<^verbatim>\<open>err := g.db.Debug().WithContext(ctx).Omit(append(g.omit, omit...)...).Where(&v).Find(&res).Error\<close>
  in \<open>Query\<close> and, written out again, in \<open>QueryOne\<close>.
\<close>

definition Query_stmt :: "GenericCRUD \<Rightarrow> row \<Rightarrow> string list \<Rightarrow> stmt" where
  "Query_stmt g v om = db_Where (StructCond v) (db_Omit (omit g @ om) db0)"

definition Query :: "finder \<Rightarrow> GenericCRUD \<Rightarrow> row \<Rightarrow> string list \<Rightarrow> ptr list \<times> error option" where
  "Query db_Find g v om = db_Find (Query_stmt g v om)"

definition QueryOne :: "finder \<Rightarrow> GenericCRUD \<Rightarrow> row \<Rightarrow> string list \<Rightarrow> ptr \<times> error option" where
  "QueryOne db_Find g v om =
     (case db_Find (Query_stmt g v om) of (res, err) \<Rightarrow>
        (case err of
           Some e \<Rightarrow>
             (None, Some (if \<not> errors_Is e ErrRecordNotFound then Wrapped ''db error: '' e else e))
         | None \<Rightarrow>
             if length res = 0 then (None, Some ErrRecordNotFound)
             else if length res > 1 then (None, Some MultipleResultsError)
             else (res ! 0, None)))"

text \<open>\<^verbatim>\<open>g.db.Debug().WithContext(ctx).Omit(omit...).Find(&res, q).Error\<close>\<close>

definition QueryMap_stmt :: "(string \<times> val) list \<Rightarrow> string list \<Rightarrow> stmt" where
  "QueryMap_stmt q om = db_Where (MapCond q) (db_Omit om db0)"

definition QueryMap :: "finder \<Rightarrow> GenericCRUD \<Rightarrow> (string \<times> val) list \<Rightarrow> string list \<Rightarrow> ptr list \<times> error option" where
  "QueryMap db_Find g q om = db_Find (QueryMap_stmt q om)"

definition QueryMapOne :: "finder \<Rightarrow> GenericCRUD \<Rightarrow> (string \<times> val) list \<Rightarrow> string list \<Rightarrow> ptr \<times> error option" where
  "QueryMapOne db_Find g q om =
     (case QueryMap db_Find g q om of (res, err) \<Rightarrow>
        (case err of
           Some e \<Rightarrow>
             (None, Some (if \<not> errors_Is e ErrRecordNotFound then Wrapped ''db error: '' e else e))
         | None \<Rightarrow>
             if length res = 0 then (None, Some ErrRecordNotFound)
             else if length res > 1 then (None, Some MultipleResultsError)
             else (res ! 0, None)))"

subsection \<open>Structured queries\<close>

text \<open>
  The five loops of \<open>SmartQuery\<close>, in the order of the source. \<open>v.String()\<close> can panic
  in the second, so building the statement yields a panic or a statement.
  \<^verbatim>\<open>fmt.Sprintf("%%%s%%", v)\<close> is \<open>v\<close> between two percent signs.
\<close>

fun preload_loop :: "string list \<Rightarrow> stmt \<Rightarrow> stmt" where
  "preload_loop [] st = st"
| "preload_loop (s # ss) st = preload_loop ss (db_Preload s st)"

fun order_loop :: "(string \<times> OrderBy) list \<Rightarrow> stmt \<Rightarrow> panic + stmt" where
  "order_loop [] st = Inr st"
| "order_loop ((k, v) # kvs) st =
     (case OrderBy_String v of
        Inl p \<Rightarrow> Inl p
      | Inr s \<Rightarrow> order_loop kvs (db_Order (k @ '' '' @ s) st))"

fun like_loop :: "(string \<times> string) list \<Rightarrow> stmt \<Rightarrow> stmt" where
  "like_loop [] st = st"
| "like_loop ((k, v) # kvs) st =
     like_loop kvs (db_Where (ExprCond (k @ '' LIKE ?'') [Str (''%'' @ v @ ''%'')]) st)"

fun between_loop :: "(string \<times> Between) list \<Rightarrow> stmt \<Rightarrow> stmt" where
  "between_loop [] st = st"
| "between_loop ((k, v) # kvs) st =
     between_loop kvs (db_Where (ExprCond (k @ '' BETWEEN ? AND ?'') [From v, To v]) st)"

fun equal_loop :: "(string \<times> string) list \<Rightarrow> stmt \<Rightarrow> stmt" where
  "equal_loop [] st = st"
| "equal_loop ((k, v) # kvs) st =
     equal_loop kvs (db_Where (ExprCond (k @ '' = ?'') [Str v]) st)"

definition SmartQuery_stmt :: "Query \<Rightarrow> panic + stmt" where
  "SmartQuery_stmt q =
     (case order_loop (OrderBy q) (preload_loop (Preload q) (db_Omit (Omit q) db0)) of
        Inl p \<Rightarrow> Inl p
      | Inr st \<Rightarrow> Inr (equal_loop (Equal q) (between_loop (Between q) (like_loop (Like q) st))))"

definition SmartQuery :: "finder \<Rightarrow> GenericCRUD \<Rightarrow> Query \<Rightarrow> panic + ptr list \<times> error option" where
  "SmartQuery db_Find g q =
     (case SmartQuery_stmt q of Inl p \<Rightarrow> Inl p | Inr st \<Rightarrow> Inr (db_Find st))"

definition SmartQueryOne :: "finder \<Rightarrow> GenericCRUD \<Rightarrow> Query \<Rightarrow> panic + ptr \<times> error option" where
  "SmartQueryOne db_Find g q =
     (case SmartQuery db_Find g q of
        Inl p \<Rightarrow> Inl p
      | Inr (res, err) \<Rightarrow>
          Inr (case err of
                 Some e \<Rightarrow>
                   (None, Some (if \<not> errors_Is e ErrRecordNotFound then Wrapped ''db error: '' e else e))
               | None \<Rightarrow>
                   if length res = 0 then (None, Some ErrRecordNotFound)
                   else if length res > 1 then (None, Some MultipleResultsError)
                   else (res ! 0, None)))"

section \<open>Singleton resolution as the specification words it\<close>

text \<open>
  The specification's Resolve-singleton, for comparison with the three methods above:
  zero matches fail with NotFound, exactly one match is returned, more than one fail
  with MultipleResults, and any other failure of the collaborator is wrapped with
  context (NotFound itself is passed on as it is).
\<close>

fun Resolve_singleton :: "ptr list \<times> error option \<Rightarrow> ptr \<times> error option" where
  "Resolve_singleton (res, Some e) =
     (None, Some (if errors_Is e ErrRecordNotFound then e else Wrapped ''db error: '' e))"
| "Resolve_singleton ([], None) = (None, Some ErrRecordNotFound)"
| "Resolve_singleton ([r], None) = (r, None)"
| "Resolve_singleton (r # r' # rs, None) = (None, Some MultipleResultsError)"

section \<open>The storage collaborator's predicates\<close>

text \<open>
  What a condition selects is decided by the storage collaborator (gorm and the SQL
  engine behind it), whose code is not part of the package. Each definition of this
  section models a part of it from the specification's description of the predicate
  set. A stored record is a \<open>row\<close>, and \<open>map_of\<close> reads an attribute of it.
\<close>

text \<open>
  Modelled from the spec: the collaborator's "notion of zero value per attribute type"
  (gorm's zero test of a struct field), here the number 0 and the empty string.
\<close>

definition is_zero :: "val \<Rightarrow> bool" where
  "is_zero x = (x = Num 0 \<or> x = Str [])"

text \<open>
  Modelled from the spec: Translate-by-example, which gorm performs for \<open>Where(&v)\<close>.
  "Inspects each attribute of the example; for every attribute whose value is not the
  type's zero value, emits an equality predicate attribute = value."
\<close>

definition Translate_by_example :: "row \<Rightarrow> (string \<times> val) list" where
  "Translate_by_example ex = filter (\<lambda>(a, x). \<not> is_zero x) ex"

text \<open>
  Modelled from the spec: the equality predicate "attribute = literal value", evaluated
  by the SQL engine on a stored record.
\<close>

definition attr_eq :: "row \<Rightarrow> string \<times> val \<Rightarrow> bool" where
  "attr_eq r = (\<lambda>(a, x). map_of r a = Some x)"

text \<open>
  Modelled from the spec: the SQL engine's order on strings that a range predicate
  compares with, taken bytewise.
\<close>

fun str_le :: "string \<Rightarrow> string \<Rightarrow> bool" where
  "str_le [] t = True"
| "str_le (a # as) [] = False"
| "str_le (a # as) (b # bs) = ((of_char a :: nat) < of_char b \<or> (a = b \<and> str_le as bs))"

text \<open>
  Modelled from the spec: the SQL engine's order on values that a range predicate
  compares with. Numbers and timestamps by value, strings by \<open>str_le\<close>; a number and a
  string are not comparable.
\<close>

fun val_le :: "val \<Rightarrow> val \<Rightarrow> bool" where
  "val_le (Num a) (Num b) = (a \<le> b)"
| "val_le (Str a) (Str b) = str_le a b"
| "val_le x y = False"

text \<open>
  Modelled from the spec: "attribute matches pattern", the SQL engine's LIKE without an
  escape character. In a pattern a percent sign stands for any run of characters, an
  underscore for any one character, and every other character for itself (compared
  exactly, as under a case-sensitive collation).
\<close>

fun like :: "string \<Rightarrow> string \<Rightarrow> bool" where
  "like [] s = (s = [])"
| "like (p # ps) [] = (p = CHR ''%'' \<and> like ps [])"
| "like (p # ps) (c # cs) =
     (if p = CHR ''%'' then like ps (c # cs) \<or> like (p # ps) cs
      else (p = CHR ''_'' \<or> p = c) \<and> like ps cs)"

text \<open>
  Modelled from the spec: the SQL engine's reading of a fragment, first step: taking a
  prefix off a string, used on the reversed fragment.
\<close>

fun strip_prefix :: "string \<Rightarrow> string \<Rightarrow> string option" where
  "strip_prefix [] s = Some s"
| "strip_prefix (p # ps) [] = None"
| "strip_prefix (p # ps) (c # cs) = (if p = c then strip_prefix ps cs else None)"

text \<open>
  Modelled from the spec: the SQL engine's reading of a fragment, second step: the
  attribute name in front of an operator, if the fragment ends with that operator.
\<close>

definition strip_suffix :: "string \<Rightarrow> string \<Rightarrow> string option" where
  "strip_suffix suf s = map_option rev (strip_prefix (rev suf) (rev s))"

text \<open>
  Modelled from the spec: how the SQL engine evaluates the three fragments the package
  emits. A fragment is an attribute name followed by one of the operators
  " BETWEEN ? AND ?", " LIKE ?" and " = ?", its placeholders bound to the arguments in
  order: "attribute BETWEEN lower AND upper (inclusive both ends)", "attribute matches
  pattern" and "attribute = literal value". The name is taken as it is (the package
  passes it on unchecked). Any other fragment, a wrong number or kind of arguments, or
  an attribute the record does not have, selects nothing.
\<close>

definition eval_expr :: "string \<Rightarrow> val list \<Rightarrow> row \<Rightarrow> bool" where
  "eval_expr sql args r =
     (case strip_suffix '' BETWEEN ? AND ?'' sql of
        Some k \<Rightarrow>
          (case args of
             [lo, hi] \<Rightarrow> (case map_of r k of Some x \<Rightarrow> val_le lo x \<and> val_le x hi | None \<Rightarrow> False)
           | _ \<Rightarrow> False)
      | None \<Rightarrow>
     (case strip_suffix '' LIKE ?'' sql of
        Some k \<Rightarrow>
          (case args of
             [Str pat] \<Rightarrow> (case map_of r k of Some (Str s) \<Rightarrow> like pat s | _ \<Rightarrow> False)
           | _ \<Rightarrow> False)
      | None \<Rightarrow>
     (case strip_suffix '' = ?'' sql of
        Some k \<Rightarrow> (case args of [x] \<Rightarrow> attr_eq r (k, x) | _ \<Rightarrow> False)
      | None \<Rightarrow> False)))"

text \<open>
  Modelled from the spec: when one condition of a statement holds of a stored record.
  A struct example contributes its translation, a map one equality per entry, a
  fragment its evaluation above.
\<close>

fun holds :: "cond \<Rightarrow> row \<Rightarrow> bool" where
  "holds (StructCond ex) r = list_all (attr_eq r) (Translate_by_example ex)"
| "holds (MapCond m) r = list_all (attr_eq r) m"
| "holds (ExprCond sql args) r = eval_expr sql args r"

text \<open>
  Modelled from the spec: the predicate set of a statement. "All clauses combine
  conjunctively": gorm joins the conditions of one statement with AND, so a record is
  selected when every condition holds.
\<close>

definition selects :: "stmt \<Rightarrow> row \<Rightarrow> bool" where
  "selects st r = list_all (\<lambda>c. holds c r) (Conds st)"

text \<open>
  Modelled from the spec: the "predicate-qualified read returning zero or more records",
  the records of a table that the statement selects, before any ordering.
\<close>

definition matching :: "row list \<Rightarrow> stmt \<Rightarrow> row list" where
  "matching tbl st = filter (selects st) tbl"

section \<open>Properties\<close>

lemma ASC_val: "ASC = 1"
  by (simp add: ASC_def)

lemma DESC_val: "DESC = 2"
  by (simp add: DESC_def)

subsection \<open>Singleton resolution\<close>

lemma Resolve_singleton_unfold:
  "Resolve_singleton (res, err) =
     (case err of
        Some e \<Rightarrow> (None, Some (if \<not> errors_Is e ErrRecordNotFound then Wrapped ''db error: '' e else e))
      | None \<Rightarrow>
          if length res = 0 then (None, Some ErrRecordNotFound)
          else if length res > 1 then (None, Some MultipleResultsError)
          else (res ! 0, None))"
proof (cases err)
  case (Some e)
  then show ?thesis by simp
next
  case None
  show ?thesis
  proof (cases res)
    case Nil
    with None show ?thesis by simp
  next
    case (Cons r rs)
    with None show ?thesis by (cases rs) simp_all
  qed
qed

lemma Resolve_singleton_record:
  "(Resolve_singleton out = (Some r, None)) = (out = ([Some r], None))"
  by (cases out rule: Resolve_singleton.cases) auto

lemma QueryMapOne_Resolve: "QueryMapOne db_Find g q om = Resolve_singleton (QueryMap db_Find g q om)"
  by (cases "QueryMap db_Find g q om") (simp add: QueryMapOne_def Resolve_singleton_unfold)

lemma SmartQueryOne_Resolve:
  "SmartQueryOne db_Find g sq =
     (case SmartQuery db_Find g sq of Inl p \<Rightarrow> Inl p | Inr out \<Rightarrow> Inr (Resolve_singleton out))"
proof (cases "SmartQuery db_Find g sq")
  case (Inl p)
  then show ?thesis by (simp add: SmartQueryOne_def)
next
  case (Inr out)
  then show ?thesis by (cases out) (simp add: SmartQueryOne_def Resolve_singleton_unfold)
qed

lemma QueryOne_Resolve: "QueryOne db_Find g v om = Resolve_singleton (Query db_Find g v om)"
  by (cases "db_Find (Query_stmt g v om)") (simp add: QueryOne_def Query_def Resolve_singleton_unfold)

lemma Resolve_singleton_nil_iff:
  "\<forall>p \<in> set res. p \<noteq> None \<Longrightarrow> Resolve_singleton (res, err) = (p, e) \<Longrightarrow> (p = None) = (e \<noteq> None)"
  by (cases "(res, err)" rule: Resolve_singleton.cases) auto

lemma order_loop_returns:
  "(\<exists>st'. order_loop kvs st = Inr st') = (\<forall>(k, d) \<in> set kvs. d = ASC \<or> d = DESC)"
  by (induction kvs st rule: order_loop.induct) (auto simp: OrderBy_String_def)

lemma SmartQuery_stmt_returns:
  "(\<exists>st. SmartQuery_stmt q = Inr st) = (\<forall>(k, d) \<in> set (OrderBy q). d = ASC \<or> d = DESC)"
proof -
  have "(\<exists>st. SmartQuery_stmt q = Inr st)
      = (\<exists>st'. order_loop (OrderBy q) (preload_loop (Preload q) (db_Omit (Omit q) db0)) = Inr st')"
    by (auto simp: SmartQuery_stmt_def split: sum.splits)
  then show ?thesis by (simp only: order_loop_returns)
qed

subsection \<open>The statement built by a structured query\<close>

lemma Conds_preload_loop: "Conds (preload_loop ss st) = Conds st"
  by (induction ss arbitrary: st) (simp_all add: db_Preload_def)

lemma Conds_order_loop: "order_loop kvs st = Inr st' \<Longrightarrow> Conds st' = Conds st"
  by (induction kvs st rule: order_loop.induct) (auto simp: db_Order_def split: sum.splits)

lemma Conds_like_loop:
  "Conds (like_loop kvs st) =
     Conds st @ map (\<lambda>(k, v). ExprCond (k @ '' LIKE ?'') [Str (''%'' @ v @ ''%'')]) kvs"
  by (induction kvs st rule: like_loop.induct) (simp_all add: db_Where_def)

lemma Conds_between_loop:
  "Conds (between_loop kvs st) =
     Conds st @ map (\<lambda>(k, b). ExprCond (k @ '' BETWEEN ? AND ?'') [From b, To b]) kvs"
  by (induction kvs st rule: between_loop.induct) (simp_all add: db_Where_def)

lemma Conds_equal_loop:
  "Conds (equal_loop kvs st) =
     Conds st @ map (\<lambda>(k, v). ExprCond (k @ '' = ?'') [Str v]) kvs"
  by (induction kvs st rule: equal_loop.induct) (simp_all add: db_Where_def)

lemma Conds_SmartQuery_stmt:
  assumes "SmartQuery_stmt q = Inr st"
  shows "Conds st =
     map (\<lambda>(k, v). ExprCond (k @ '' LIKE ?'') [Str (''%'' @ v @ ''%'')]) (Like q)
     @ map (\<lambda>(k, b). ExprCond (k @ '' BETWEEN ? AND ?'') [From b, To b]) (Between q)
     @ map (\<lambda>(k, v). ExprCond (k @ '' = ?'') [Str v]) (Equal q)"
proof -
  from assms obtain st0 where
    o: "order_loop (OrderBy q) (preload_loop (Preload q) (db_Omit (Omit q) db0)) = Inr st0" and
    st: "st = equal_loop (Equal q) (between_loop (Between q) (like_loop (Like q) st0))"
    by (auto simp: SmartQuery_stmt_def split: sum.splits)
  from Conds_order_loop [OF o] have "Conds st0 = []"
    by (simp add: Conds_preload_loop db_Omit_def db0_def)
  then show ?thesis
    by (simp add: st Conds_equal_loop Conds_between_loop Conds_like_loop)
qed

lemma strip_prefix_append: "strip_prefix p (p @ t) = Some t"
  by (induction p) simp_all

lemma strip_suffix_same: "strip_suffix suf (k @ suf) = Some k"
  by (simp add: strip_suffix_def strip_prefix_append)

lemma strip_suffix_between_like: "strip_suffix '' BETWEEN ? AND ?'' (k @ '' LIKE ?'') = None"
  by (simp add: strip_suffix_def)

lemma strip_suffix_between_equal: "strip_suffix '' BETWEEN ? AND ?'' (k @ '' = ?'') = None"
  by (simp add: strip_suffix_def)

lemma strip_suffix_like_equal: "strip_suffix '' LIKE ?'' (k @ '' = ?'') = None"
  by (simp add: strip_suffix_def)

lemma eval_expr_between:
  "eval_expr (k @ '' BETWEEN ? AND ?'') [lo, hi] r =
     (\<exists>x. map_of r k = Some x \<and> val_le lo x \<and> val_le x hi)"
  by (simp add: eval_expr_def strip_suffix_same split: option.splits)

lemma eval_expr_like:
  "eval_expr (k @ '' LIKE ?'') [Str pat] r = (\<exists>s. map_of r k = Some (Str s) \<and> like pat s)"
  by (simp add: eval_expr_def strip_suffix_same strip_suffix_between_like
      split: option.splits val.splits)

lemma eval_expr_equal:
  "eval_expr (k @ '' = ?'') [x] r = (map_of r k = Some x)"
  by (simp add: eval_expr_def strip_suffix_same strip_suffix_between_equal strip_suffix_like_equal
      attr_eq_def)

lemma selects_iff: "selects st r = (\<forall>c \<in> set (Conds st). holds c r)"
  by (simp add: selects_def list_all_iff)

lemma selects_mset:
  assumes "mset (Conds st') = mset (Conds st)"
  shows "selects st' r = selects st r"
proof -
  from assms have "set (Conds st') = set (Conds st)"
    by (rule mset_eq_setD)
  then show ?thesis by (simp add: selects_iff)
qed

lemma matching_mset:
  assumes "mset (Conds st') = mset (Conds st)"
  shows "matching tbl st' = matching tbl st"
proof -
  have "selects st' = selects st"
    by (rule ext) (rule selects_mset [OF assms])
  then show ?thesis by (simp add: matching_def)
qed

subsection \<open>Patterns and the order of values\<close>

lemma like_percent_all: "like [CHR ''%''] s"
  by (induction s) simp_all

lemma like_percent: "like (CHR ''%'' # ps) s = (\<exists>a b. s = a @ b \<and> like ps b)"
proof (induction s)
  case Nil
  then show ?case by simp
next
  case (Cons c cs)
  have "(\<exists>a b. c # cs = a @ b \<and> like ps b) = (like ps (c # cs) \<or> (\<exists>a b. cs = a @ b \<and> like ps b))"
    by (auto simp: Cons_eq_append_conv)
  with Cons show ?case by simp
qed

lemma like_literal:
  "CHR ''%'' \<notin> set v \<Longrightarrow> CHR ''_'' \<notin> set v \<Longrightarrow> like (v @ ps) s = (\<exists>t. s = v @ t \<and> like ps t)"
proof (induction v arbitrary: s)
  case Nil
  then show ?case by simp
next
  case (Cons x xs)
  then have x: "x \<noteq> CHR ''%''" "x \<noteq> CHR ''_''"
    and IH: "\<And>s. like (xs @ ps) s = (\<exists>t. s = xs @ t \<and> like ps t)"
    by auto
  show ?case
  proof (cases s)
    case Nil
    with x show ?thesis by simp
  next
    case (Cons c cs)
    with x IH [of cs] show ?thesis by auto
  qed
qed

lemma like_substring:
  assumes "CHR ''%'' \<notin> set v" "CHR ''_'' \<notin> set v"
 shows "like (CHR ''%'' # v @ ''%'') s = sublist v s"
proof -
  have "like (CHR ''%'' # v @ ''%'') s = (\<exists>a b. s = a @ b \<and> (\<exists>t. b = v @ t))"
    by (simp add: like_percent like_literal [OF assms] like_percent_all)
  also have "\<dots> = sublist v s"
    by (auto simp: sublist_def)
  finally show ?thesis .
qed

lemma str_le_refl: "str_le s s"
  by (induction s) simp_all

lemma val_le_refl: "val_le x x"
  by (cases x) (simp_all add: str_le_refl)

subsection \<open>What a statement selects\<close>

lemma ball_map_pairs: "(\<forall>c \<in> set (map (\<lambda>(k, v). f k v) kvs). P c) = (\<forall>(k, v) \<in> set kvs. P (f k v))"
  by (induction kvs) (simp_all add: case_prod_unfold)

lemma selects_SmartQuery_stmt:
  assumes "SmartQuery_stmt q = Inr st"
  shows "selects st r =
        ((\<forall>(k, v) \<in> set (Like q). holds (ExprCond (k @ '' LIKE ?'') [Str (''%'' @ v @ ''%'')]) r)
         \<and> (\<forall>(k, b) \<in> set (Between q). holds (ExprCond (k @ '' BETWEEN ? AND ?'') [From b, To b]) r)
         \<and> (\<forall>(k, v) \<in> set (Equal q). holds (ExprCond (k @ '' = ?'') [Str v]) r))"
  unfolding selects_iff Conds_SmartQuery_stmt [OF assms] set_append ball_Un ball_map_pairs
  by (rule refl)

lemma set_matching: "set (matching tbl st) = {r \<in> set tbl. \<forall>c \<in> set (Conds st). holds c r}"
  unfolding matching_def selects_iff by simp

lemma matching_SmartQuery_perm:
  assumes "SmartQuery_stmt q = Inr st" and "SmartQuery_stmt q' = Inr st'"
    and "mset (Like q') = mset (Like q)" and "mset (Between q') = mset (Between q)"
    and "mset (Equal q') = mset (Equal q)"
  shows "matching tbl st' = matching tbl st"
proof -
  have "mset (Conds st') = mset (Conds st)"
    unfolding Conds_SmartQuery_stmt [OF assms(1)] Conds_SmartQuery_stmt [OF assms(2)]
    by (simp only: mset_append mset_map assms(3,4,5))
  then show ?thesis by (rule matching_mset)
qed

subsection \<open>Filtering by example\<close>

lemma Conds_Query_stmt: "Conds (Query_stmt g v om) = [StructCond v]"
  by (simp add: Query_stmt_def db_Where_def db_Omit_def db0_def)

lemma set_Translate_by_example:
  "set (Translate_by_example v) = {(a, x). (a, x) \<in> set v \<and> \<not> is_zero x}"
  by (auto simp: Translate_by_example_def)

lemma selects_Query_stmt:
  "selects (Query_stmt g v om) r = (\<forall>(a, x) \<in> set v. \<not> is_zero x \<longrightarrow> map_of r a = Some x)"
  by (auto simp: selects_def Conds_Query_stmt list_all_iff set_Translate_by_example attr_eq_def)

lemma Translate_all_zero:
  assumes "\<forall>(a, x) \<in> set v. is_zero x"
  shows "Translate_by_example v = []"
  using assms by (auto simp: Translate_by_example_def filter_empty_conv)

lemma matching_all_zero:
  assumes "\<forall>(a, x) \<in> set v. is_zero x"
  shows "matching tbl (Query_stmt g v om) = tbl"
proof -
  have "selects (Query_stmt g v om) r" for r
    using assms unfolding selects_Query_stmt by blast
  then show ?thesis by (simp add: matching_def)
qed

lemma zero_not_translated: "is_zero z \<Longrightarrow> (a, z) \<notin> set (Translate_by_example v)"
  by (simp add: set_Translate_by_example)

lemma selects_blind_to_zero:
  assumes z: "is_zero z" and r: "map_of r a = Some z" and s: "selects (Query_stmt g v om) r"
  shows "selects (Query_stmt g v om) ((a, w) # r)"
  unfolding selects_Query_stmt
proof (intro ballI, clarify)
  fix a' x
  assume mem: "(a', x) \<in> set v" and nz: "\<not> is_zero x"
  with s have eq: "map_of r a' = Some x"
    unfolding selects_Query_stmt by blast
  with r z nz have "a' \<noteq> a" by auto
  with eq show "map_of ((a, w) # r) a' = Some x" by simp
qed

subsection \<open>The claims\<close>

text \<open>
  C1. For each singleton call (\<open>QueryOne\<close>, \<open>QueryMapOne\<close>, \<open>SmartQueryOne\<close>): when the
  underlying \<open>Find\<close> succeeds, the call returns the NotFound error if no record matched,
  the one matched record with a nil error if exactly one matched, and the
  MultipleResults error, a value other than NotFound, if two or more matched; it never
  returns the first of several matches.
\<close>

theorem singleton_resolution_three_way:
  "(db_Find (Query_stmt g v om) = (res, None) \<longrightarrow>
      (length res = 0 \<longrightarrow> QueryOne db_Find g v om = (None, Some ErrRecordNotFound))
    \<and> (length res = 1 \<longrightarrow> QueryOne db_Find g v om = (res ! 0, None))
    \<and> (2 \<le> length res \<longrightarrow> QueryOne db_Find g v om = (None, Some MultipleResultsError)))
   \<and> (db_Find (QueryMap_stmt q om) = (res, None) \<longrightarrow>
      (length res = 0 \<longrightarrow> QueryMapOne db_Find g q om = (None, Some ErrRecordNotFound))
    \<and> (length res = 1 \<longrightarrow> QueryMapOne db_Find g q om = (res ! 0, None))
    \<and> (2 \<le> length res \<longrightarrow> QueryMapOne db_Find g q om = (None, Some MultipleResultsError)))
   \<and> (SmartQuery_stmt sq = Inr st \<and> db_Find st = (res, None) \<longrightarrow>
      (length res = 0 \<longrightarrow> SmartQueryOne db_Find g sq = Inr (None, Some ErrRecordNotFound))
    \<and> (length res = 1 \<longrightarrow> SmartQueryOne db_Find g sq = Inr (res ! 0, None))
    \<and> (2 \<le> length res \<longrightarrow> SmartQueryOne db_Find g sq = Inr (None, Some MultipleResultsError)))
   \<and> MultipleResultsError \<noteq> ErrRecordNotFound"
  by (simp add: QueryOne_def QueryMapOne_def QueryMap_def SmartQueryOne_def SmartQuery_def)

theorem singleton_resolution_three_way_witness:
  "QueryOne (\<lambda>st. ([Some [(''id'', Num 1)], Some [(''id'', Num 2)]], None)) (New []) [(''name'', Str ''a'')] []
     = (None, Some MultipleResultsError)
   \<and> QueryMapOne (\<lambda>st. ([Some [(''id'', Num 1)]], None)) (New []) [(''id'', Num 1)] []
     = (Some [(''id'', Num 1)], None)
   \<and> SmartQueryOne (\<lambda>st. ([], None)) (New [])
        \<lparr>Omit = [], Preload = [], OrderBy = [(''id'', ASC)], Equal = [(''name'', ''zzz'')], Like = [], Between = []\<rparr>
     = Inr (None, Some ErrRecordNotFound)"
  using
    singleton_resolution_three_way [where db_Find = "\<lambda>st. ([Some [(''id'', Num 1)], Some [(''id'', Num 2)]], None)"
      and g = "New []" and v = "[(''name'', Str ''a'')]" and om = "[]"
      and res = "[Some [(''id'', Num 1)], Some [(''id'', Num 2)]]"]
    singleton_resolution_three_way [where db_Find = "\<lambda>st. ([Some [(''id'', Num 1)]], None)"
      and g = "New []" and q = "[(''id'', Num 1)]" and om = "[]" and res = "[Some [(''id'', Num 1)]]"]
    singleton_resolution_three_way [where db_Find = "\<lambda>st. ([], None)" and g = "New []" and res = "[]"
      and sq = "\<lparr>Omit = [], Preload = [], OrderBy = [(''id'', ASC)], Equal = [(''name'', ''zzz'')], Like = [], Between = []\<rparr>"
      and st = "equal_loop [(''name'', ''zzz'')] (db_Order ''id ASC'' (db_Omit [] db0))"]
  by (simp add: SmartQuery_stmt_def OrderBy_String_def)

text \<open>
  C2, as amended. Every write (\<open>Create\<close>, \<open>GetOrCreate\<close>, \<open>Update\<close>) omits the
  constructor's omit list followed by the call's own list: the call's list adds to the
  constructor's and never replaces it. The constructor of crud/model.go puts
  \<open>OmitByDefault\<close>, that is CreatedAt and UpdatedAt, in front of its own arguments, and
  with it the omitted set is those two, the constructor's arguments and the call's list.
  The constructor of the file that defines \<open>SmartQuery\<close> has no default: the omitted
  set is the constructor's arguments and the call's list.
\<close>

theorem write_omits_constructor_then_call:
  "Omits (Create_stmt g om) = omit g @ om
   \<and> Omits (GetOrCreate_stmt g v om) = omit g @ om
   \<and> Omits (Update_stmt g om) = omit g @ om
   \<and> omit (New c) = c
   \<and> omit (New_OmitByDefault c) = [''CreatedAt'', ''UpdatedAt''] @ c
   \<and> set (Omits (Create_stmt (New_OmitByDefault c) om)) = {''CreatedAt'', ''UpdatedAt''} \<union> set c \<union> set om
   \<and> set (Omits (GetOrCreate_stmt (New_OmitByDefault c) v om)) = {''CreatedAt'', ''UpdatedAt''} \<union> set c \<union> set om
   \<and> set (Omits (Update_stmt (New_OmitByDefault c) om)) = {''CreatedAt'', ''UpdatedAt''} \<union> set c \<union> set om
   \<and> set (Omits (Create_stmt (New c) om)) = set c \<union> set om
   \<and> set (Omits (GetOrCreate_stmt (New c) v om)) = set c \<union> set om
   \<and> set (Omits (Update_stmt (New c) om)) = set c \<union> set om"
  by (simp add: Create_stmt_def GetOrCreate_stmt_def Update_stmt_def New_def New_OmitByDefault_def
      OmitByDefault_def db_Omit_def db_Where_def db0_def insert_commute)

text \<open>
  C2 as stated fails with the constructor that has no default: after \<open>New()\<close>, an
  \<open>Update\<close> with the omit list ["name"] omits "name" alone, not the timestamps.
\<close>

theorem write_omits_default_counterexample:
  "Omits (Update_stmt (New []) [''name'']) = [''name'']
   \<and> ''CreatedAt'' \<notin> set (Omits (Update_stmt (New []) [''name'']))
   \<and> set (Omits (Update_stmt (New []) [''name''])) \<noteq> {''CreatedAt'', ''UpdatedAt''} \<union> set [''name'']"
  by (simp add: Update_stmt_def New_def db_Omit_def db0_def)

text \<open>
  C3. Rendering a sort direction: \<open>OrderBy.String\<close> returns "ASC" for \<open>ASC\<close> and "DESC"
  for \<open>DESC\<close>; for every other value of the type, the zero value included, it panics;
  and when the input is \<open>ASC\<close> or \<open>DESC\<close> the panic branch is not reached.
\<close>

theorem OrderBy_String_total_on_variants:
  "OrderBy_String ASC = Inr ''ASC''
   \<and> OrderBy_String DESC = Inr ''DESC''
   \<and> (\<forall>ob. ob \<noteq> ASC \<and> ob \<noteq> DESC \<longrightarrow> OrderBy_String ob = Inl (Panic ''unknown OrderBy''))
   \<and> OrderBy_String 0 = Inl (Panic ''unknown OrderBy'')
   \<and> (\<forall>ob. ob = ASC \<or> ob = DESC \<longrightarrow> (\<exists>s. OrderBy_String ob = Inr s))"
  by (simp add: OrderBy_String_def ASC_val DESC_val)

theorem OrderBy_String_total_on_variants_witness:
  "(3::OrderBy) \<noteq> ASC \<and> (3::OrderBy) \<noteq> DESC
   \<and> OrderBy_String 3 = Inl (Panic ''unknown OrderBy'')
   \<and> OrderBy_String DESC = Inr ''DESC''"
  using OrderBy_String_total_on_variants by (simp add: ASC_val DESC_val)

text \<open>
  C4. \<open>Query\<close> and \<open>QueryOne\<close> hand the example record to the collaborator as the one
  condition of the statement. Its translation holds an equality attribute = value
  exactly for the attributes of the example whose value is not the zero value, so a
  record is selected when it agrees with the example on those attributes. An example
  with every attribute at zero translates to the empty predicate set and selects every
  record of the table. No example can ask for an attribute to be zero: a zero value is
  never in the translation, and an example that selects a record whose attribute is
  zero also selects that record with any other value of the attribute.
\<close>

theorem by_example_nonzero_only:
  "Conds (Query_stmt g v om) = [StructCond v]
   \<and> Query db_Find g v om = db_Find (Query_stmt g v om)
   \<and> QueryOne db_Find g v om = Resolve_singleton (db_Find (Query_stmt g v om))
   \<and> set (Translate_by_example v) = {(a, x). (a, x) \<in> set v \<and> \<not> is_zero x}
   \<and> selects (Query_stmt g v om) r = (\<forall>(a, x) \<in> set v. \<not> is_zero x \<longrightarrow> map_of r a = Some x)
   \<and> ((\<forall>(a, x) \<in> set v. is_zero x) \<longrightarrow>
         Translate_by_example v = [] \<and> matching tbl (Query_stmt g v om) = tbl)
   \<and> (is_zero z \<longrightarrow> (a, z) \<notin> set (Translate_by_example v))
   \<and> (is_zero z \<and> map_of r a = Some z \<and> selects (Query_stmt g v om) r \<longrightarrow>
         selects (Query_stmt g v om) ((a, w) # r))"
proof (intro conjI impI)
  show "Conds (Query_stmt g v om) = [StructCond v]"
    by (rule Conds_Query_stmt)
  show "Query db_Find g v om = db_Find (Query_stmt g v om)"
    by (simp add: Query_def)
  show "QueryOne db_Find g v om = Resolve_singleton (db_Find (Query_stmt g v om))"
    by (simp add: QueryOne_Resolve Query_def)
  show "set (Translate_by_example v) = {(a, x). (a, x) \<in> set v \<and> \<not> is_zero x}"
    by (rule set_Translate_by_example)
  show "selects (Query_stmt g v om) r = (\<forall>(a, x) \<in> set v. \<not> is_zero x \<longrightarrow> map_of r a = Some x)"
    by (rule selects_Query_stmt)
  show "Translate_by_example v = []" if "\<forall>(a, x) \<in> set v. is_zero x"
    using that by (rule Translate_all_zero)
  show "matching tbl (Query_stmt g v om) = tbl" if "\<forall>(a, x) \<in> set v. is_zero x"
    using that by (rule matching_all_zero)
  show "(a, z) \<notin> set (Translate_by_example v)" if "is_zero z"
    using that by (rule zero_not_translated)
  show "selects (Query_stmt g v om) ((a, w) # r)"
    if "is_zero z \<and> map_of r a = Some z \<and> selects (Query_stmt g v om) r"
    using that selects_blind_to_zero by blast
qed

theorem by_example_nonzero_only_witness:
  "Translate_by_example [(''id'', Num 0), (''name'', Str ''test''), (''age'', Num 0)] = [(''name'', Str ''test'')]
   \<and> list_all (\<lambda>(a, x). is_zero x) [(''id'', Num 0), (''name'', Str ''''), (''age'', Num 0)]
   \<and> matching [[(''id'', Num 1), (''name'', Str ''test''), (''age'', Num 11)],
                [(''id'', Num 2), (''name'', Str ''test2''), (''age'', Num 0)]]
        (Query_stmt (New []) [(''id'', Num 0), (''name'', Str ''''), (''age'', Num 0)] [])
      = [[(''id'', Num 1), (''name'', Str ''test''), (''age'', Num 11)],
         [(''id'', Num 2), (''name'', Str ''test2''), (''age'', Num 0)]]"
proof -
  let ?v = "[(''id'', Num 0), (''name'', Str ''''), (''age'', Num 0)]"
  let ?tbl = "[[(''id'', Num 1), (''name'', Str ''test''), (''age'', Num 11)],
                [(''id'', Num 2), (''name'', Str ''test2''), (''age'', Num 0)]]"
  have t: "Translate_by_example [(''id'', Num 0), (''name'', Str ''test''), (''age'', Num 0)] = [(''name'', Str ''test'')]"
    by (simp add: Translate_by_example_def is_zero_def)
  have z: "\<forall>(a, x) \<in> set ?v. is_zero x"
    by (simp add: is_zero_def)
  from by_example_nonzero_only [where v = ?v and g = "New []" and om = "[]" and tbl = ?tbl] z
  have "matching ?tbl (Query_stmt (New []) ?v []) = ?tbl"
    by blast
  moreover from z have "list_all (\<lambda>(a, x). is_zero x) ?v"
    by (simp only: list_all_iff)
  ultimately show ?thesis using t by blast
qed

text \<open>
  C5. The conditions of the statement \<open>SmartQuery\<close> builds are the substring, range and
  equality clauses of the query, one \<open>Where\<close> each and nothing else; a record is
  selected exactly when every one of them holds (a conjunction, with no way to state a
  disjunction); and the selected records are the same in whatever order the clauses
  are applied: for any other order in which \<open>range\<close> visits the three maps, and for any
  permutation of the conditions at all.
\<close>

theorem SmartQuery_clauses_conjunctive:
  assumes "SmartQuery_stmt q = Inr st"
  shows "Conds st =
        map (\<lambda>(k, v). ExprCond (k @ '' LIKE ?'') [Str (''%'' @ v @ ''%'')]) (Like q)
        @ map (\<lambda>(k, b). ExprCond (k @ '' BETWEEN ? AND ?'') [From b, To b]) (Between q)
        @ map (\<lambda>(k, v). ExprCond (k @ '' = ?'') [Str v]) (Equal q)
    \<and> selects st r =
        ((\<forall>(k, v) \<in> set (Like q). holds (ExprCond (k @ '' LIKE ?'') [Str (''%'' @ v @ ''%'')]) r)
         \<and> (\<forall>(k, b) \<in> set (Between q). holds (ExprCond (k @ '' BETWEEN ? AND ?'') [From b, To b]) r)
         \<and> (\<forall>(k, v) \<in> set (Equal q). holds (ExprCond (k @ '' = ?'') [Str v]) r))
    \<and> set (matching tbl st) = {r \<in> set tbl. \<forall>c \<in> set (Conds st). holds c r}
    \<and> (\<forall>q' st'. SmartQuery_stmt q' = Inr st' \<and> mset (Like q') = mset (Like q)
           \<and> mset (Between q') = mset (Between q) \<and> mset (Equal q') = mset (Equal q)
         \<longrightarrow> matching tbl st' = matching tbl st)
    \<and> (\<forall>st'. mset (Conds st') = mset (Conds st) \<longrightarrow> matching tbl st' = matching tbl st)"
proof (intro conjI allI impI)
  show "Conds st =
        map (\<lambda>(k, v). ExprCond (k @ '' LIKE ?'') [Str (''%'' @ v @ ''%'')]) (Like q)
        @ map (\<lambda>(k, b). ExprCond (k @ '' BETWEEN ? AND ?'') [From b, To b]) (Between q)
        @ map (\<lambda>(k, v). ExprCond (k @ '' = ?'') [Str v]) (Equal q)"
    by (rule Conds_SmartQuery_stmt [OF assms])
  show "selects st r =
        ((\<forall>(k, v) \<in> set (Like q). holds (ExprCond (k @ '' LIKE ?'') [Str (''%'' @ v @ ''%'')]) r)
         \<and> (\<forall>(k, b) \<in> set (Between q). holds (ExprCond (k @ '' BETWEEN ? AND ?'') [From b, To b]) r)
         \<and> (\<forall>(k, v) \<in> set (Equal q). holds (ExprCond (k @ '' = ?'') [Str v]) r))"
    by (rule selects_SmartQuery_stmt [OF assms])
  show "set (matching tbl st) = {r \<in> set tbl. \<forall>c \<in> set (Conds st). holds c r}"
    by (rule set_matching)
next
  fix q' :: Query and st' :: stmt
  assume "SmartQuery_stmt q' = Inr st' \<and> mset (Like q') = mset (Like q)
           \<and> mset (Between q') = mset (Between q) \<and> mset (Equal q') = mset (Equal q)"
  then show "matching tbl st' = matching tbl st"
    using matching_SmartQuery_perm [OF assms, of q' st' tbl] by blast
next
  fix st' :: stmt
  assume "mset (Conds st') = mset (Conds st)"
  then show "matching tbl st' = matching tbl st"
    by (rule matching_mset)
qed

theorem SmartQuery_clauses_conjunctive_witness:
  "SmartQuery_stmt \<lparr>Omit = [], Preload = [], OrderBy = [], Equal = [(''name'', ''test''), (''city'', ''Kyiv'')],
       Like = [(''name'', ''es'')], Between = []\<rparr>
     = Inr \<lparr>Omits = [], Preloads = [], Orders = [],
            Conds = [ExprCond ''name LIKE ?'' [Str ''%es%''], ExprCond ''name = ?'' [Str ''test''],
                     ExprCond ''city = ?'' [Str ''Kyiv'']]\<rparr>
   \<and> SmartQuery_stmt \<lparr>Omit = [], Preload = [], OrderBy = [], Equal = [(''city'', ''Kyiv''), (''name'', ''test'')],
       Like = [(''name'', ''es'')], Between = []\<rparr>
     = Inr \<lparr>Omits = [], Preloads = [], Orders = [],
            Conds = [ExprCond ''name LIKE ?'' [Str ''%es%''], ExprCond ''city = ?'' [Str ''Kyiv''],
                     ExprCond ''name = ?'' [Str ''test'']]\<rparr>
   \<and> matching [[(''name'', Str ''test''), (''city'', Str ''Kyiv'')], [(''name'', Str ''test''), (''city'', Str ''Lviv'')]]
        \<lparr>Omits = [], Preloads = [], Orders = [],
            Conds = [ExprCond ''name LIKE ?'' [Str ''%es%''], ExprCond ''city = ?'' [Str ''Kyiv''],
                     ExprCond ''name = ?'' [Str ''test'']]\<rparr>
     = matching [[(''name'', Str ''test''), (''city'', Str ''Kyiv'')], [(''name'', Str ''test''), (''city'', Str ''Lviv'')]]
        \<lparr>Omits = [], Preloads = [], Orders = [],
            Conds = [ExprCond ''name LIKE ?'' [Str ''%es%''], ExprCond ''name = ?'' [Str ''test''],
                     ExprCond ''city = ?'' [Str ''Kyiv'']]\<rparr>"
proof -
  let ?q = "\<lparr>Omit = [], Preload = [], OrderBy = [], Equal = [(''name'', ''test''), (''city'', ''Kyiv'')],
       Like = [(''name'', ''es'')], Between = []\<rparr>"
  let ?q' = "\<lparr>Omit = [], Preload = [], OrderBy = [], Equal = [(''city'', ''Kyiv''), (''name'', ''test'')],
       Like = [(''name'', ''es'')], Between = []\<rparr>"
  let ?st = "\<lparr>Omits = [], Preloads = [], Orders = [],
            Conds = [ExprCond ''name LIKE ?'' [Str ''%es%''], ExprCond ''name = ?'' [Str ''test''],
                     ExprCond ''city = ?'' [Str ''Kyiv'']]\<rparr>"
  let ?st' = "\<lparr>Omits = [], Preloads = [], Orders = [],
            Conds = [ExprCond ''name LIKE ?'' [Str ''%es%''], ExprCond ''city = ?'' [Str ''Kyiv''],
                     ExprCond ''name = ?'' [Str ''test'']]\<rparr>"
  let ?tbl = "[[(''name'', Str ''test''), (''city'', Str ''Kyiv'')], [(''name'', Str ''test''), (''city'', Str ''Lviv'')]]"
  have st: "SmartQuery_stmt ?q = Inr ?st"
    by (simp add: SmartQuery_stmt_def db_Where_def db_Omit_def db0_def)
  have st': "SmartQuery_stmt ?q' = Inr ?st'"
    by (simp add: SmartQuery_stmt_def db_Where_def db_Omit_def db0_def)
  have p: "mset (Like ?q') = mset (Like ?q) \<and> mset (Between ?q') = mset (Between ?q)
      \<and> mset (Equal ?q') = mset (Equal ?q)"
    by (simp add: add.commute)
  from SmartQuery_clauses_conjunctive [OF st, of _ ?tbl] st' p
  have "matching ?tbl ?st' = matching ?tbl ?st"
    by blast
  with st st' show ?thesis by blast
qed

text \<open>
  C6, as amended. For every range clause (attribute, Between{From, To}) of a structured
  query, \<open>SmartQuery\<close> adds the condition attribute BETWEEN ? AND ? with From and To as
  its arguments, in this order and as given. The condition holds exactly for the records
  whose attribute lies between From and To, both ends included: when From is at most To,
  a record whose attribute equals From or equals To satisfies it, and is in the result
  if it satisfies the other conditions of the statement.
\<close>

theorem Between_clause_inclusive:
  assumes "SmartQuery_stmt q = Inr st" and "(k, b) \<in> set (Between q)"
  shows "ExprCond (k @ '' BETWEEN ? AND ?'') [From b, To b] \<in> set (Conds st)
    \<and> holds (ExprCond (k @ '' BETWEEN ? AND ?'') [From b, To b]) r
         = (\<exists>x. map_of r k = Some x \<and> val_le (From b) x \<and> val_le x (To b))
    \<and> (val_le (From b) (To b) \<and> (map_of r k = Some (From b) \<or> map_of r k = Some (To b)) \<longrightarrow>
         holds (ExprCond (k @ '' BETWEEN ? AND ?'') [From b, To b]) r)
    \<and> (val_le (From b) (To b) \<and> (map_of r k = Some (From b) \<or> map_of r k = Some (To b))
         \<and> r \<in> set tbl
         \<and> (\<forall>c \<in> set (Conds st). c \<noteq> ExprCond (k @ '' BETWEEN ? AND ?'') [From b, To b] \<longrightarrow> holds c r)
         \<longrightarrow> r \<in> set (matching tbl st))"
proof -
  let ?c = "ExprCond (k @ '' BETWEEN ? AND ?'') [From b, To b]"
  have mem: "?c \<in> set (Conds st)"
    using assms(2) by (force simp: Conds_SmartQuery_stmt [OF assms(1)])
  have sem: "holds ?c r = (\<exists>x. map_of r k = Some x \<and> val_le (From b) x \<and> val_le x (To b))"
    by (simp add: eval_expr_between)
  have ends: "val_le (From b) (To b) \<and> (map_of r k = Some (From b) \<or> map_of r k = Some (To b)) \<longrightarrow> holds ?c r"
    unfolding sem using val_le_refl by blast
  have res: "val_le (From b) (To b) \<and> (map_of r k = Some (From b) \<or> map_of r k = Some (To b))
         \<and> r \<in> set tbl \<and> (\<forall>c \<in> set (Conds st). c \<noteq> ?c \<longrightarrow> holds c r)
         \<longrightarrow> r \<in> set (matching tbl st)"
    using ends unfolding matching_def selects_iff by auto
  from mem sem ends res show ?thesis by blast
qed

theorem Between_clause_inclusive_witness:
  "[(''created_at'', Num 10)] \<in> set (matching
       [[(''created_at'', Num 9)], [(''created_at'', Num 10)], [(''created_at'', Num 15)],
        [(''created_at'', Num 20)], [(''created_at'', Num 21)]]
       (between_loop [(''created_at'', \<lparr>From = Num 10, To = Num 20\<rparr>)] (db_Omit [] db0)))
   \<and> [(''created_at'', Num 20)] \<in> set (matching
       [[(''created_at'', Num 9)], [(''created_at'', Num 10)], [(''created_at'', Num 15)],
        [(''created_at'', Num 20)], [(''created_at'', Num 21)]]
       (between_loop [(''created_at'', \<lparr>From = Num 10, To = Num 20\<rparr>)] (db_Omit [] db0)))
   \<and> matching [[(''created_at'', Num 9)], [(''created_at'', Num 10)], [(''created_at'', Num 15)],
             [(''created_at'', Num 20)], [(''created_at'', Num 21)]]
     (between_loop [(''created_at'', \<lparr>From = Num 10, To = Num 20\<rparr>)] (db_Omit [] db0))
     = [[(''created_at'', Num 10)], [(''created_at'', Num 15)], [(''created_at'', Num 20)]]"
proof -
  let ?b = "\<lparr>From = Num 10, To = Num 20\<rparr>"
  let ?q = "\<lparr>Omit = [], Preload = [], OrderBy = [], Equal = [], Like = [], Between = [(''created_at'', ?b)]\<rparr>"
  let ?st = "between_loop [(''created_at'', ?b)] (db_Omit [] db0)"
  let ?c = "ExprCond (''created_at'' @ '' BETWEEN ? AND ?'') [From ?b, To ?b]"
  let ?tbl = "[[(''created_at'', Num 9)], [(''created_at'', Num 10)], [(''created_at'', Num 15)],
        [(''created_at'', Num 20)], [(''created_at'', Num 21)]]"
  have st: "SmartQuery_stmt ?q = Inr ?st"
    by (simp add: SmartQuery_stmt_def)
  have mem: "(''created_at'', ?b) \<in> set (Between ?q)"
    by simp
  have conds: "\<forall>c \<in> set (Conds ?st). c \<noteq> ?c \<longrightarrow> holds c r" for r
    by (simp add: db_Where_def db_Omit_def db0_def)
  have le: "val_le (From ?b) (To ?b)"
    by simp
  have lo: "map_of [(''created_at'', Num 10)] ''created_at'' = Some (From ?b)
      \<and> [(''created_at'', Num 10)] \<in> set ?tbl"
    by simp
  have hi: "map_of [(''created_at'', Num 20)] ''created_at'' = Some (To ?b)
      \<and> [(''created_at'', Num 20)] \<in> set ?tbl"
    by simp
  from Between_clause_inclusive [OF st mem, of "[(''created_at'', Num 10)]" ?tbl] le lo conds
  have r10: "[(''created_at'', Num 10)] \<in> set (matching ?tbl ?st)"
    by blast
  from Between_clause_inclusive [OF st mem, of "[(''created_at'', Num 20)]" ?tbl] le hi conds
  have r20: "[(''created_at'', Num 20)] \<in> set (matching ?tbl ?st)"
    by blast
  have sel: "selects ?st r = holds ?c r" for r
    by (simp add: selects_def db_Where_def db_Omit_def db0_def)
  from Between_clause_inclusive [OF st mem]
  have h: "holds ?c r = (\<exists>x. map_of r ''created_at'' = Some x \<and> val_le (From ?b) x \<and> val_le x (To ?b))" for r
    by blast
  have sel': "selects ?st = (\<lambda>r. \<exists>x. map_of r ''created_at'' = Some x \<and> val_le (From ?b) x \<and> val_le x (To ?b))"
    by (rule ext) (simp only: sel h)
  have all: "matching ?tbl ?st = [[(''created_at'', Num 10)], [(''created_at'', Num 15)], [(''created_at'', Num 20)]]"
    unfolding matching_def sel' by simp
  from r10 r20 all show ?thesis by (intro conjI)
qed

text \<open>
  C6 as stated fails for a range clause whose From is above its To: the clause
  (created_at, Between{From: 20, To: 10}) becomes created_at BETWEEN 20 AND 10, which
  selects neither the record whose attribute equals From nor the one whose attribute
  equals To.
\<close>

theorem Between_inverted_range_counterexample:
  "SmartQuery_stmt \<lparr>Omit = [], Preload = [], OrderBy = [], Equal = [], Like = [],
       Between = [(''created_at'', \<lparr>From = Num 20, To = Num 10\<rparr>)]\<rparr>
     = Inr \<lparr>Omits = [], Preloads = [], Orders = [],
            Conds = [ExprCond ''created_at BETWEEN ? AND ?'' [Num 20, Num 10]]\<rparr>
   \<and> map_of [(''created_at'', Num 20)] ''created_at'' = Some (From \<lparr>From = Num 20, To = Num 10\<rparr>)
   \<and> map_of [(''created_at'', Num 10)] ''created_at'' = Some (To \<lparr>From = Num 20, To = Num 10\<rparr>)
   \<and> matching [[(''created_at'', Num 20)], [(''created_at'', Num 10)]]
        \<lparr>Omits = [], Preloads = [], Orders = [],
            Conds = [ExprCond ''created_at BETWEEN ? AND ?'' [Num 20, Num 10]]\<rparr>
     = []"
  by (simp add: SmartQuery_stmt_def db_Where_def db_Omit_def db0_def matching_def selects_def
      eval_expr_def strip_suffix_def)

text \<open>
  C7, as amended. For every substring clause (attribute, value) of a structured query,
  \<open>SmartQuery\<close> adds the condition attribute LIKE ? with the value between two percent
  signs as its argument, and every selected record satisfies it. The value is passed as
  it is, not escaped: when it contains no percent sign, no underscore and no backslash
  (the characters a LIKE pattern reads specially, the backslash as the escape character
  of the dialects that have one), the condition holds exactly for the records whose
  attribute is a string that contains the value as a contiguous substring, compared
  case-sensitively here.
\<close>

theorem Like_clause_substring:
  assumes "SmartQuery_stmt q = Inr st" and "(k, v) \<in> set (Like q)"
  shows "ExprCond (k @ '' LIKE ?'') [Str (''%'' @ v @ ''%'')] \<in> set (Conds st)
    \<and> (CHR ''%'' \<notin> set v \<and> CHR ''_'' \<notin> set v \<and> CHR 0x5C \<notin> set v \<longrightarrow>
         holds (ExprCond (k @ '' LIKE ?'') [Str (''%'' @ v @ ''%'')]) r
           = (\<exists>s. map_of r k = Some (Str s) \<and> sublist v s))
    \<and> (selects st r \<longrightarrow> holds (ExprCond (k @ '' LIKE ?'') [Str (''%'' @ v @ ''%'')]) r)"
proof -
  have mem: "ExprCond (k @ '' LIKE ?'') [Str (''%'' @ v @ ''%'')] \<in> set (Conds st)"
    using assms(2) by (force simp: Conds_SmartQuery_stmt [OF assms(1)])
  have sem: "CHR ''%'' \<notin> set v \<and> CHR ''_'' \<notin> set v \<and> CHR 0x5C \<notin> set v \<longrightarrow>
         holds (ExprCond (k @ '' LIKE ?'') [Str (''%'' @ v @ ''%'')]) r
           = (\<exists>s. map_of r k = Some (Str s) \<and> sublist v s)"
    by (simp add: eval_expr_like like_substring)
  from mem have "selects st r \<longrightarrow> holds (ExprCond (k @ '' LIKE ?'') [Str (''%'' @ v @ ''%'')]) r"
    by (auto simp: selects_iff)
  with mem sem show ?thesis by blast
qed

theorem Like_clause_substring_witness:
  "matching [[(''name'', Str ''test'')], [(''name'', Str ''TEST'')], [(''name'', Str ''testing'')]]
     (like_loop [(''name'', ''es'')] (db_Omit [] db0))
     = [[(''name'', Str ''test'')], [(''name'', Str ''testing'')]]
   \<and> sublist ''es'' ''test'' \<and> \<not> sublist ''es'' ''TEST'' \<and> sublist ''es'' ''testing''"
proof -
  let ?q = "\<lparr>Omit = [], Preload = [], OrderBy = [], Equal = [], Like = [(''name'', ''es'')], Between = []\<rparr>"
  let ?st = "like_loop [(''name'', ''es'')] (db_Omit [] db0)"
  let ?c = "ExprCond (''name'' @ '' LIKE ?'') [Str (''%'' @ ''es'' @ ''%'')]"
  have st: "SmartQuery_stmt ?q = Inr ?st"
    by (simp add: SmartQuery_stmt_def)
  have mem: "(''name'', ''es'') \<in> set (Like ?q)"
    by simp
  have plain: "CHR ''%'' \<notin> set ''es'' \<and> CHR ''_'' \<notin> set ''es'' \<and> CHR 0x5C \<notin> set ''es''"
    by simp
  have sel: "selects ?st r = holds ?c r" for r
    by (simp add: selects_def db_Where_def db_Omit_def db0_def)
  from Like_clause_substring [OF st mem] plain
  have h: "holds ?c r = (\<exists>s. map_of r ''name'' = Some (Str s) \<and> sublist ''es'' s)" for r
    by blast
  have sel': "selects ?st = (\<lambda>r. \<exists>s. map_of r ''name'' = Some (Str s) \<and> sublist ''es'' s)"
    by (rule ext) (simp only: sel h)
  have s1: "sublist ''es'' ''test''" and s2: "\<not> sublist ''es'' ''TEST''" and s3: "sublist ''es'' ''testing''"
    by (simp_all add: sublist_code prefix_code)
  have "matching [[(''name'', Str ''test'')], [(''name'', Str ''TEST'')], [(''name'', Str ''testing'')]] ?st
     = [[(''name'', Str ''test'')], [(''name'', Str ''testing'')]]"
    unfolding matching_def sel' using s1 s2 s3 by simp
  with s1 s2 s3 show ?thesis by blast
qed

text \<open>
  C7 as stated fails for a value that contains a wildcard: the substring clause
  (name, "_") becomes name LIKE '%_%', which selects the record named "abc", and "abc"
  does not contain "_".
\<close>

theorem Like_wildcard_counterexample:
  "SmartQuery_stmt \<lparr>Omit = [], Preload = [], OrderBy = [], Equal = [], Like = [(''name'', ''_'')], Between = []\<rparr>
     = Inr \<lparr>Omits = [], Preloads = [], Orders = [], Conds = [ExprCond ''name LIKE ?'' [Str ''%_%'']]\<rparr>
   \<and> matching [[(''name'', Str ''abc'')]]
        \<lparr>Omits = [], Preloads = [], Orders = [], Conds = [ExprCond ''name LIKE ?'' [Str ''%_%'']]\<rparr>
     = [[(''name'', Str ''abc'')]]
   \<and> \<not> sublist ''_'' ''abc''"
  by (simp add: SmartQuery_stmt_def db_Where_def db_Omit_def db0_def matching_def selects_def
      eval_expr_def strip_suffix_def sublist_code prefix_code)

text \<open>
  C8. For each list call (\<open>Query\<close>, \<open>QueryMap\<close>, \<open>SmartQuery\<close>): when \<open>Find\<close> matches
  no record and reports no error, the call returns the empty slice with a nil error,
  where \<open>QueryOne\<close> on the same outcome returns NotFound. A list call adds no error of
  its own: its error is the one \<open>Find\<close> reports, so it returns neither NotFound nor
  MultipleResults unless \<open>Find\<close> itself does.
\<close>

theorem list_calls_pass_Find_through:
  "(db_Find (Query_stmt g v om) = ([], None) \<longrightarrow> Query db_Find g v om = ([], None))
   \<and> (db_Find (QueryMap_stmt q om) = ([], None) \<longrightarrow> QueryMap db_Find g q om = ([], None))
   \<and> (SmartQuery_stmt sq = Inr st \<and> db_Find st = ([], None) \<longrightarrow> SmartQuery db_Find g sq = Inr ([], None))
   \<and> snd (Query db_Find g v om) = snd (db_Find (Query_stmt g v om))
   \<and> snd (QueryMap db_Find g q om) = snd (db_Find (QueryMap_stmt q om))
   \<and> (SmartQuery_stmt sq = Inr st \<longrightarrow> SmartQuery db_Find g sq = Inr (db_Find st))
   \<and> ((\<forall>s. snd (db_Find s) \<noteq> Some ErrRecordNotFound \<and> snd (db_Find s) \<noteq> Some MultipleResultsError) \<longrightarrow>
        snd (Query db_Find g v om) \<noteq> Some ErrRecordNotFound
      \<and> snd (Query db_Find g v om) \<noteq> Some MultipleResultsError
      \<and> snd (QueryMap db_Find g q om) \<noteq> Some ErrRecordNotFound
      \<and> snd (QueryMap db_Find g q om) \<noteq> Some MultipleResultsError
      \<and> (\<forall>out. SmartQuery db_Find g sq = Inr out \<longrightarrow>
            snd out \<noteq> Some ErrRecordNotFound \<and> snd out \<noteq> Some MultipleResultsError))
   \<and> (db_Find (Query_stmt g v om) = ([], None) \<longrightarrow> QueryOne db_Find g v om = (None, Some ErrRecordNotFound))"
proof -
  have zero: "(db_Find (Query_stmt g v om) = ([], None) \<longrightarrow> Query db_Find g v om = ([], None))
      \<and> (db_Find (QueryMap_stmt q om) = ([], None) \<longrightarrow> QueryMap db_Find g q om = ([], None))
      \<and> (SmartQuery_stmt sq = Inr st \<and> db_Find st = ([], None) \<longrightarrow> SmartQuery db_Find g sq = Inr ([], None))"
    by (simp add: Query_def QueryMap_def SmartQuery_def)
  have pass: "snd (Query db_Find g v om) = snd (db_Find (Query_stmt g v om))
      \<and> snd (QueryMap db_Find g q om) = snd (db_Find (QueryMap_stmt q om))
      \<and> (SmartQuery_stmt sq = Inr st \<longrightarrow> SmartQuery db_Find g sq = Inr (db_Find st))"
    by (simp add: Query_def QueryMap_def SmartQuery_def)
  have smart: "SmartQuery db_Find g sq = Inr out \<Longrightarrow> \<exists>s. out = db_Find s" for out
    by (cases "SmartQuery_stmt sq") (auto simp: SmartQuery_def)
  have none: "(\<forall>s. snd (db_Find s) \<noteq> Some ErrRecordNotFound \<and> snd (db_Find s) \<noteq> Some MultipleResultsError) \<longrightarrow>
        snd (Query db_Find g v om) \<noteq> Some ErrRecordNotFound
      \<and> snd (Query db_Find g v om) \<noteq> Some MultipleResultsError
      \<and> snd (QueryMap db_Find g q om) \<noteq> Some ErrRecordNotFound
      \<and> snd (QueryMap db_Find g q om) \<noteq> Some MultipleResultsError
      \<and> (\<forall>out. SmartQuery db_Find g sq = Inr out \<longrightarrow>
            snd out \<noteq> Some ErrRecordNotFound \<and> snd out \<noteq> Some MultipleResultsError)"
    using smart unfolding Query_def QueryMap_def by blast
  have one: "db_Find (Query_stmt g v om) = ([], None) \<longrightarrow> QueryOne db_Find g v om = (None, Some ErrRecordNotFound)"
    by (simp add: QueryOne_def)
  from zero pass none one show ?thesis by blast
qed

theorem list_calls_pass_Find_through_witness:
  "(\<forall>s. snd ((\<lambda>st. ([], None)) s) \<noteq> Some ErrRecordNotFound)
   \<and> Query (\<lambda>st. ([], None)) (New []) [(''name'', Str ''zzz'')] [] = ([], None)
   \<and> QueryMap (\<lambda>st. ([], None)) (New []) [(''id'', Num 9)] [] = ([], None)
   \<and> SmartQuery (\<lambda>st. ([], None)) (New [])
        \<lparr>Omit = [], Preload = [], OrderBy = [], Equal = [(''name'', ''zzz'')], Like = [], Between = []\<rparr>
      = Inr ([], None)
   \<and> QueryOne (\<lambda>st. ([], None)) (New []) [(''name'', Str ''zzz'')] [] = (None, Some ErrRecordNotFound)"
proof -
  let ?f = "\<lambda>st :: stmt. ([] :: ptr list, None :: error option)"
  let ?sq = "\<lparr>Omit = [], Preload = [], OrderBy = [], Equal = [(''name'', ''zzz'')], Like = [], Between = []\<rparr>"
  let ?st = "equal_loop [(''name'', ''zzz'')] (db_Omit [] db0)"
  have st: "SmartQuery_stmt ?sq = Inr ?st"
    by (simp add: SmartQuery_stmt_def)
  note t = list_calls_pass_Find_through [where db_Find = ?f and g = "New []"
      and v = "[(''name'', Str ''zzz'')]" and om = "[]" and q = "[(''id'', Num 9)]"
      and sq = ?sq and st = ?st]
  from t have a: "Query ?f (New []) [(''name'', Str ''zzz'')] [] = ([], None)" by blast
  from t have b: "QueryMap ?f (New []) [(''id'', Num 9)] [] = ([], None)" by blast
  from t st have c: "SmartQuery ?f (New []) ?sq = Inr ([], None)" by blast
  from t have d: "QueryOne ?f (New []) [(''name'', Str ''zzz'')] [] = (None, Some ErrRecordNotFound)" by blast
  from a b c d show ?thesis by simp
qed

text \<open>
  C9. \<open>QueryMapOne\<close> and \<open>SmartQueryOne\<close> are the specification's singleton resolution
  applied to what \<open>QueryMap\<close> and \<open>SmartQuery\<close> return (a panic of \<open>SmartQuery\<close> is the
  panic of \<open>SmartQueryOne\<close>), so a record returned by the singleton call is the one
  record of the list call.
\<close>

theorem One_is_Resolve_singleton_of_list:
  "QueryMapOne db_Find g q om = Resolve_singleton (QueryMap db_Find g q om)
   \<and> SmartQueryOne db_Find g sq =
       (case SmartQuery db_Find g sq of Inl p \<Rightarrow> Inl p | Inr out \<Rightarrow> Inr (Resolve_singleton out))
   \<and> (QueryMapOne db_Find g q om = (Some r, None) \<longrightarrow> QueryMap db_Find g q om = ([Some r], None))
   \<and> (SmartQueryOne db_Find g sq = Inr (Some r, None) \<longrightarrow> SmartQuery db_Find g sq = Inr ([Some r], None))"
proof -
  have m': "QueryMapOne db_Find g q om = (Some r, None) \<longrightarrow> QueryMap db_Find g q om = ([Some r], None)"
    by (simp add: QueryMapOne_Resolve Resolve_singleton_record)
  have s': "SmartQueryOne db_Find g sq = Inr (Some r, None) \<longrightarrow> SmartQuery db_Find g sq = Inr ([Some r], None)"
    by (cases "SmartQuery db_Find g sq") (simp_all add: SmartQueryOne_Resolve Resolve_singleton_record)
  from QueryMapOne_Resolve SmartQueryOne_Resolve m' s' show ?thesis by blast
qed

theorem One_is_Resolve_singleton_of_list_witness:
  "QueryMapOne (\<lambda>st. ([Some [(''id'', Num 7)]], None)) (New []) [(''id'', Num 7)] [] = (Some [(''id'', Num 7)], None)
   \<and> QueryMap (\<lambda>st. ([Some [(''id'', Num 7)]], None)) (New []) [(''id'', Num 7)] [] = ([Some [(''id'', Num 7)]], None)"
proof -
  let ?f = "\<lambda>st :: stmt. ([Some [(''id'', Num 7)]], None :: error option)"
  have one: "QueryMapOne ?f (New []) [(''id'', Num 7)] [] = (Some [(''id'', Num 7)], None)"
    by (simp add: QueryMapOne_def QueryMap_def)
  have "QueryMapOne ?f (New []) [(''id'', Num 7)] [] = (Some [(''id'', Num 7)], None)
      \<longrightarrow> QueryMap ?f (New []) [(''id'', Num 7)] [] = ([Some [(''id'', Num 7)]], None)"
    using One_is_Resolve_singleton_of_list [where db_Find = ?f and g = "New []" and q = "[(''id'', Num 7)]"
      and om = "[]" and r = "[(''id'', Num 7)]"] by blast
  with one show ?thesis by blast
qed

text \<open>
  C10. Provided \<open>Find\<close> stores no nil pointer in the slice it fills, each singleton call
  returns a nil record exactly when it returns an error: never both a record and an
  error, never neither. \<open>SmartQueryOne\<close> returns at all exactly when every sort
  direction of the query is \<open>ASC\<close> or \<open>DESC\<close> (it panics otherwise).
\<close>

theorem singleton_record_xor_error:
  assumes "\<forall>st. \<forall>p \<in> set (fst (db_Find st)). p \<noteq> None"
  shows "(fst (QueryOne db_Find g v om) = None) = (snd (QueryOne db_Find g v om) \<noteq> None)
   \<and> (fst (QueryMapOne db_Find g q om) = None) = (snd (QueryMapOne db_Find g q om) \<noteq> None)
   \<and> (\<forall>p e. SmartQueryOne db_Find g sq = Inr (p, e) \<longrightarrow> (p = None) = (e \<noteq> None))
   \<and> ((\<exists>out. SmartQueryOne db_Find g sq = Inr out) = (\<forall>(k, d) \<in> set (OrderBy sq). d = ASC \<or> d = DESC))"
proof -
  have nil: "Resolve_singleton (db_Find st) = (p, e) \<Longrightarrow> (p = None) = (e \<noteq> None)" for st p e
    using assms Resolve_singleton_nil_iff [of "fst (db_Find st)" "snd (db_Find st)" p e] by simp
  have a: "(fst (QueryOne db_Find g v om) = None) = (snd (QueryOne db_Find g v om) \<noteq> None)"
    using nil [of "Query_stmt g v om" "fst (QueryOne db_Find g v om)" "snd (QueryOne db_Find g v om)"]
    by (simp add: QueryOne_Resolve Query_def)
  have b: "(fst (QueryMapOne db_Find g q om) = None) = (snd (QueryMapOne db_Find g q om) \<noteq> None)"
    using nil [of "QueryMap_stmt q om" "fst (QueryMapOne db_Find g q om)" "snd (QueryMapOne db_Find g q om)"]
    by (simp add: QueryMapOne_Resolve QueryMap_def)
  have c: "SmartQueryOne db_Find g sq = Inr (p, e) \<longrightarrow> (p = None) = (e \<noteq> None)" for p e
  proof (cases "SmartQuery_stmt sq")
    case (Inl x)
    then show ?thesis by (simp add: SmartQueryOne_Resolve SmartQuery_def)
  next
    case (Inr st)
    then show ?thesis using nil [of st p e] by (simp add: SmartQueryOne_Resolve SmartQuery_def)
  qed
  have d: "(\<exists>out. SmartQueryOne db_Find g sq = Inr out) = (\<exists>st. SmartQuery_stmt sq = Inr st)"
    by (cases "SmartQuery_stmt sq") (simp_all add: SmartQueryOne_Resolve SmartQuery_def)
  from a b c d show ?thesis by (simp only: SmartQuery_stmt_returns) blast
qed

theorem singleton_record_xor_error_witness:
  "(\<forall>st. None \<notin> set (fst ((\<lambda>st. ([Some [(''id'', Num 1)]], None :: error option)) st)))
   \<and> fst (QueryOne (\<lambda>st. ([Some [(''id'', Num 1)]], None)) (New []) [(''id'', Num 1)] []) \<noteq> None
   \<and> snd (QueryOne (\<lambda>st. ([Some [(''id'', Num 1)]], None)) (New []) [(''id'', Num 1)] []) = None"
proof -
  let ?f = "\<lambda>st :: stmt. ([Some [(''id'', Num 1)]], None :: error option)"
  have h: "\<forall>st. \<forall>p \<in> set (fst (?f st)). p \<noteq> None" by simp
  have e: "snd (QueryOne ?f (New []) [(''id'', Num 1)] []) = None"
    by (simp add: QueryOne_def)
  from singleton_record_xor_error [OF h, where g = "New []" and v = "[(''id'', Num 1)]" and om = "[]"] e h
  show ?thesis by simp
qed

end
